theory Spec2Isabelle
  imports Main "HOL-Library.Word" "HOL-Library.Sublist"
begin

section \<open>Transaction-manager configuration (utils/service/txmgr/cli.go)\<close>

subsection \<open>Go values\<close>

text \<open>
  Go's \<open>uint64\<close> is a 64-bit word. \<open>time.Duration\<close> is an \<open>int64\<close> count of
  nanoseconds: the same 64 bits, read as two's complement by \<open>sint\<close>. The configuration
  code only compares these values with zero and copies them.
\<close>

type_synonym uint64 = "64 word"
type_synonym Duration = "64 word"

definition Second :: Duration where
  "Second = 1000000000"

definition Minute :: Duration where
  "Minute = 60 * Second"

text \<open>
  A Go \<open>error\<close> value: \<open>errors.New msg\<close> (and \<open>fmt.Errorf\<close> without \<open>%w\<close>) carries a
  message; \<open>fmt.Errorf "prefix: %w" err\<close> carries the prefix and wraps \<open>err\<close>, which
  \<open>errors.Unwrap\<close> gives back. A \<open>nil\<close> error is \<open>None\<close> of \<open>error option\<close>.
\<close>

datatype error = errors_New string | Errorf_w string error

fun Error :: "error \<Rightarrow> string" where
  "Error (errors_New msg) = msg"
| "Error (Errorf_w pre err) = pre @ Error err"

fun Unwrap :: "error \<Rightarrow> error option" where
  "Unwrap (errors_New msg) = None"
| "Unwrap (Errorf_w pre err) = Some err"

subsection \<open>CLIConfig and its validation\<close>

text \<open>
  \<open>SignerCLIConfig\<close> has the type \<open>client.CLIConfig\<close> of package
  utils/signer/client, which this development does not cover: the type is the parameter
  \<open>'s\<close>, and its \<open>Check\<close> method is the parameter \<open>signerCheck\<close> of \<open>Check\<close>. The
  method is called on the field alone, so it sees nothing else of the CLIConfig.
\<close>

record 's CLIConfig =
  L1RPCURL :: string
  Mnemonic :: string
  HDPath :: string
  PrivateKey :: string
  SignerCLIConfig :: 's
  NumConfirmations :: uint64
  SafeAbortNonceTooLowCount :: uint64
  TxBufferSize :: uint64
  ResubmissionTimeout :: Duration
  ReceiptQueryInterval :: Duration
  NetworkTimeout :: Duration
  TxSendTimeout :: Duration
  TxNotInMempoolTimeout :: Duration

definition Check :: "('s \<Rightarrow> error option) \<Rightarrow> 's CLIConfig \<Rightarrow> error option" where
  "Check signerCheck m =
    (if L1RPCURL m = [] then Some (errors_New ''must provide a L1 RPC url'')
     else if NumConfirmations m = 0 then Some (errors_New ''NumConfirmations must not be 0'')
     else if NetworkTimeout m = 0 then Some (errors_New ''must provide NetworkTimeout'')
     else if ResubmissionTimeout m = 0 then Some (errors_New ''must provide ResubmissionTimeout'')
     else if ReceiptQueryInterval m = 0 then Some (errors_New ''must provide ReceiptQueryInterval'')
     else if TxNotInMempoolTimeout m = 0 then Some (errors_New ''must provide TxNotInMempoolTimeout'')
     else if SafeAbortNonceTooLowCount m = 0 then
       Some (errors_New ''SafeAbortNonceTooLowCount must not be 0'')
     else (case signerCheck (SignerCLIConfig m) of
             Some err \<Rightarrow> Some err
           | None \<Rightarrow> None))"

subsection \<open>Config and NewConfig\<close>

text \<open>
  \<open>common.Address\<close> is an array of 20 bytes; its zero value is 20 zero bytes.
\<close>

type_synonym Address = "8 word list"

definition AddressLength :: nat where
  "AddressLength = 20"

definition zeroAddress :: Address where
  "zeroAddress = replicate AddressLength 0"

text \<open>
  \<open>Backend\<close> is an interface value, \<open>ChainID\<close> a \<open>*big.Int\<close> and \<open>Signer\<close> a function
  value: each may be \<open>nil\<close>, which is \<open>None\<close>. The backend client is of type \<open>'b\<close>, a
  signer function of type \<open>'f\<close>. A field that shares its name with a field of
  \<open>CLIConfig\<close> carries the prefix \<open>cfg\<close>.
\<close>

record ('b, 'f) Config =
  Backend :: "'b option"
  cfgResubmissionTimeout :: Duration
  ChainID :: "int option"
  cfgTxSendTimeout :: Duration
  cfgTxNotInMempoolTimeout :: Duration
  cfgNetworkTimeout :: Duration
  cfgReceiptQueryInterval :: Duration
  cfgNumConfirmations :: uint64
  cfgSafeAbortNonceTooLowCount :: uint64
  cfgTxBufferSize :: uint64
  Signer :: "'f option"
  From :: Address

text \<open>The zero value \<open>Config{}\<close>.\<close>

definition zeroConfig :: "('b, 'f) Config" where
  "zeroConfig =
    \<lparr> Backend = None, cfgResubmissionTimeout = 0, ChainID = None, cfgTxSendTimeout = 0,
      cfgTxNotInMempoolTimeout = 0, cfgNetworkTimeout = 0, cfgReceiptQueryInterval = 0,
      cfgNumConfirmations = 0, cfgSafeAbortNonceTooLowCount = 0, cfgTxBufferSize = 0,
      Signer = None, From = zeroAddress \<rparr>"

text \<open>
  \<open>NewConfig\<close> talks to the outside three times: \<open>ethclient.DialContext\<close>, the client's
  \<open>ChainID\<close> and \<open>kcrypto.SignerFactoryFromConfig\<close>. What the outside answers is the
  record \<open>env\<close>; each call made is appended, with its arguments, to a trace of
  \<open>interaction\<close>s that \<open>NewConfig\<close> returns beside its Go result pair
  \<open>(Config, error)\<close>. The two contexts carry the timeout \<open>cfg.NetworkTimeout\<close>, passed
  here as the first argument of the call; the logger is not modelled.
\<close>

datatype 's interaction =
    DialContext Duration string
  | FetchChainID Duration
  | SignerFactoryFromConfig string string string 's

record ('s, 'b, 'f) env =
  envDialContext :: "Duration \<Rightarrow> string \<Rightarrow> error + 'b"
  envChainID :: "'b \<Rightarrow> Duration \<Rightarrow> error + int"
  envSignerFactoryFromConfig ::
    "string \<Rightarrow> string \<Rightarrow> string \<Rightarrow> 's \<Rightarrow> error + ((int \<Rightarrow> 'f) \<times> Address)"

definition NewConfig ::
  "('s, 'b, 'f) env \<Rightarrow> ('s \<Rightarrow> error option) \<Rightarrow> 's CLIConfig
    \<Rightarrow> (('b, 'f) Config \<times> error option) \<times> 's interaction list" where
  "NewConfig world signerCheck cfg =
    (case Check signerCheck cfg of
       Some err \<Rightarrow> ((zeroConfig, Some (Errorf_w ''invalid config: '' err)), [])
     | None \<Rightarrow>
        (let t1 = [DialContext (NetworkTimeout cfg) (L1RPCURL cfg)] in
         case envDialContext world (NetworkTimeout cfg) (L1RPCURL cfg) of
           Inl err \<Rightarrow> ((zeroConfig, Some (Errorf_w ''could not dial eth client: '' err)), t1)
         | Inr l1 \<Rightarrow>
            (let t2 = t1 @ [FetchChainID (NetworkTimeout cfg)] in
             case envChainID world l1 (NetworkTimeout cfg) of
               Inl err \<Rightarrow>
                 ((zeroConfig, Some (Errorf_w ''could not dial fetch L1 chain ID: '' err)), t2)
             | Inr chainID \<Rightarrow>
                (let t3 = t2 @ [SignerFactoryFromConfig (PrivateKey cfg) (Mnemonic cfg)
                                  (HDPath cfg) (SignerCLIConfig cfg)] in
                 case envSignerFactoryFromConfig world (PrivateKey cfg) (Mnemonic cfg)
                        (HDPath cfg) (SignerCLIConfig cfg) of
                   Inl err \<Rightarrow> ((zeroConfig, Some (Errorf_w ''could not init signer: '' err)), t3)
                 | Inr (signerFactory, from) \<Rightarrow>
                     ((\<lparr> Backend = Some l1,
                         cfgResubmissionTimeout = ResubmissionTimeout cfg,
                         ChainID = Some chainID,
                         cfgTxSendTimeout = TxSendTimeout cfg,
                         cfgTxNotInMempoolTimeout = TxNotInMempoolTimeout cfg,
                         cfgNetworkTimeout = NetworkTimeout cfg,
                         cfgReceiptQueryInterval = ReceiptQueryInterval cfg,
                         cfgNumConfirmations = NumConfirmations cfg,
                         cfgSafeAbortNonceTooLowCount = SafeAbortNonceTooLowCount cfg,
                         cfgTxBufferSize = TxBufferSize cfg,
                         Signer = Some (signerFactory chainID),
                         From = from \<rparr>, None), t3)))))"

subsection \<open>Concrete inputs\<close>

text \<open>
  A configuration holding the defaults of the flags of \<open>CLIFlags\<close>, an endpoint URL, and
  a signer configuration with nothing in it (\<open>unit\<close>) that its check accepts.
\<close>

definition signerCheckAccepts :: "unit \<Rightarrow> error option" where
  "signerCheckAccepts s = None"

definition defaultCLIConfig :: "unit CLIConfig" where
  "defaultCLIConfig =
    \<lparr> L1RPCURL = ''http://127.0.0.1:8545'', Mnemonic = [], HDPath = [], PrivateKey = [],
      SignerCLIConfig = (),
      NumConfirmations = 10, SafeAbortNonceTooLowCount = 3, TxBufferSize = 10,
      ResubmissionTimeout = 48 * Second, ReceiptQueryInterval = 12 * Second,
      NetworkTimeout = 2 * Second, TxSendTimeout = 0, TxNotInMempoolTimeout = 2 * Minute \<rparr>"

text \<open>An outside world whose endpoint is up, on chain 901, with a signer for every input.\<close>

definition sampleWorld :: "(unit, string, int) env" where
  "sampleWorld =
    \<lparr> envDialContext = (\<lambda>timeout url. Inr url),
      envChainID = (\<lambda>l1 timeout. Inr 901),
      envSignerFactoryFromConfig = (\<lambda>pk mn hp s. Inr (\<lambda>chainID. chainID, zeroAddress)) \<rparr>"

subsection \<open>Flags and reading them back\<close>

definition L1RPCFlagName :: string where
  "L1RPCFlagName = ''l1-eth-rpc''"

definition MnemonicFlagName :: string where
  "MnemonicFlagName = ''mnemonic''"

definition HDPathFlagName :: string where
  "HDPathFlagName = ''hd-path''"

definition PrivateKeyFlagName :: string where
  "PrivateKeyFlagName = ''private-key''"

definition NumConfirmationsFlagName :: string where
  "NumConfirmationsFlagName = ''num-confirmations''"

definition SafeAbortNonceTooLowCountFlagName :: string where
  "SafeAbortNonceTooLowCountFlagName = ''safe-abort-nonce-too-low-count''"

definition ResubmissionTimeoutFlagName :: string where
  "ResubmissionTimeoutFlagName = ''resubmission-timeout''"

definition NetworkTimeoutFlagName :: string where
  "NetworkTimeoutFlagName = ''network-timeout''"

definition TxSendTimeoutFlagName :: string where
  "TxSendTimeoutFlagName = ''txmgr.send-timeout''"

definition TxNotInMempoolTimeoutFlagName :: string where
  "TxNotInMempoolTimeoutFlagName = ''txmgr.not-in-mempool-timeout''"

definition ReceiptQueryIntervalFlagName :: string where
  "ReceiptQueryIntervalFlagName = ''txmgr.receipt-query-interval''"

definition BufferSizeFlagName :: string where
  "BufferSizeFlagName = ''txmgr.buffer-size''"

text \<open>\<open>PrefixEnvVar\<close> of utils/service/util.go.\<close>

definition PrefixEnvVar :: "string \<Rightarrow> string \<Rightarrow> string" where
  "PrefixEnvVar prefix' suffix' = prefix' @ ''_'' @ suffix'"

text \<open>
  The three kinds of \<open>cli.Flag\<close> that \<open>CLIFlags\<close> builds, with the fields it sets
  (a \<open>StringFlag\<close>'s \<open>Value\<close> is left at its zero value, the empty string).
\<close>

datatype Flag =
    StringFlag (Name: string) (Usage: string) (EnvVar: string)
  | Uint64Flag (Name: string) (Usage: string) (Uint64Value: uint64) (EnvVar: string)
  | DurationFlag (Name: string) (Usage: string) (DurationValue: Duration) (EnvVar: string)

text \<open>
  \<open>client.CLIFlags\<close> belongs to package utils/signer/client: the flags it returns for
  a prefix are the parameter \<open>clientCLIFlags\<close>.
\<close>

definition CLIFlags :: "(string \<Rightarrow> Flag list) \<Rightarrow> string \<Rightarrow> Flag list" where
  "CLIFlags clientCLIFlags envPrefix =
    [ StringFlag MnemonicFlagName
        ''The mnemonic used to derive the wallets for either the service''
        (PrefixEnvVar envPrefix ''MNEMONIC''),
      StringFlag HDPathFlagName
        ''The HD path used to derive the wallet from the mnemonic. The mnemonic flag must also be set.''
        (PrefixEnvVar envPrefix ''HD_PATH''),
      StringFlag ''private-key''
        ''The private key to use with the service. Must not be used with mnemonic.''
        (PrefixEnvVar envPrefix ''PRIVATE_KEY''),
      Uint64Flag NumConfirmationsFlagName
        ''Number of confirmations which we will wait after sending a transaction''
        10
        (PrefixEnvVar envPrefix ''NUM_CONFIRMATIONS''),
      Uint64Flag SafeAbortNonceTooLowCountFlagName
        ''Number of ErrNonceTooLow observations required to give up on a tx at a particular nonce without receiving confirmation''
        3
        (PrefixEnvVar envPrefix ''SAFE_ABORT_NONCE_TOO_LOW_COUNT''),
      DurationFlag ResubmissionTimeoutFlagName
        ''Duration we will wait before resubmitting a transaction to L1''
        (48 * Second)
        (PrefixEnvVar envPrefix ''RESUBMISSION_TIMEOUT''),
      DurationFlag NetworkTimeoutFlagName
        ''Timeout for all network operations''
        (2 * Second)
        (PrefixEnvVar envPrefix ''NETWORK_TIMEOUT''),
      DurationFlag TxSendTimeoutFlagName
        ''Timeout for sending transactions. If 0 it is disabled.''
        0
        (PrefixEnvVar envPrefix ''TXMGR_TX_SEND_TIMEOUT''),
      DurationFlag TxNotInMempoolTimeoutFlagName
        ''Timeout for aborting a tx send if the tx does not make it to the mempool.''
        (2 * Minute)
        (PrefixEnvVar envPrefix ''TXMGR_TX_NOT_IN_MEMPOOL_TIMEOUT''),
      DurationFlag ReceiptQueryIntervalFlagName
        ''Frequency to poll for receipts''
        (12 * Second)
        (PrefixEnvVar envPrefix ''TXMGR_RECEIPT_QUERY_INTERVAL''),
      Uint64Flag BufferSizeFlagName
        ''Tx buffer size for buffered txmgr''
        10
        (PrefixEnvVar envPrefix ''TXMGR_BUFFER_SIZE'')
    ] @ clientCLIFlags envPrefix"

text \<open>
  A \<open>cli.Context\<close> as \<open>ReadCLIConfig\<close> sees it: the values of the global flags by
  name and kind. \<open>GlobalString\<close>, \<open>GlobalUint64\<close> and \<open>GlobalDuration\<close> give the zero
  value for a name that no flag of the application defines.
\<close>

record Context =
  globalStrings :: "string \<rightharpoonup> string"
  globalUint64s :: "string \<rightharpoonup> uint64"
  globalDurations :: "string \<rightharpoonup> Duration"

definition GlobalString :: "Context \<Rightarrow> string \<Rightarrow> string" where
  "GlobalString ctx name = (case globalStrings ctx name of None \<Rightarrow> [] | Some v \<Rightarrow> v)"

definition GlobalUint64 :: "Context \<Rightarrow> string \<Rightarrow> uint64" where
  "GlobalUint64 ctx name = (case globalUint64s ctx name of None \<Rightarrow> 0 | Some v \<Rightarrow> v)"

definition GlobalDuration :: "Context \<Rightarrow> string \<Rightarrow> Duration" where
  "GlobalDuration ctx name = (case globalDurations ctx name of None \<Rightarrow> 0 | Some v \<Rightarrow> v)"

text \<open>\<open>client.ReadCLIConfig\<close> is the parameter \<open>clientReadCLIConfig\<close>.\<close>

definition ReadCLIConfig :: "(Context \<Rightarrow> 's) \<Rightarrow> Context \<Rightarrow> 's CLIConfig" where
  "ReadCLIConfig clientReadCLIConfig ctx =
    \<lparr> L1RPCURL = GlobalString ctx L1RPCFlagName,
      Mnemonic = GlobalString ctx MnemonicFlagName,
      HDPath = GlobalString ctx HDPathFlagName,
      PrivateKey = GlobalString ctx PrivateKeyFlagName,
      SignerCLIConfig = clientReadCLIConfig ctx,
      NumConfirmations = GlobalUint64 ctx NumConfirmationsFlagName,
      SafeAbortNonceTooLowCount = GlobalUint64 ctx SafeAbortNonceTooLowCountFlagName,
      TxBufferSize = GlobalUint64 ctx BufferSizeFlagName,
      ResubmissionTimeout = GlobalDuration ctx ResubmissionTimeoutFlagName,
      ReceiptQueryInterval = GlobalDuration ctx ReceiptQueryIntervalFlagName,
      NetworkTimeout = GlobalDuration ctx NetworkTimeoutFlagName,
      TxSendTimeout = GlobalDuration ctx TxSendTimeoutFlagName,
      TxNotInMempoolTimeout = GlobalDuration ctx TxNotInMempoolTimeoutFlagName \<rparr>"

text \<open>
  The flag names that \<open>CLIFlags\<close> itself lists: three for key management, eight for the
  transaction manager.
\<close>

definition keyFlagNames :: "string list" where
  "keyFlagNames = [MnemonicFlagName, HDPathFlagName, PrivateKeyFlagName]"

definition txmgrFlagNames :: "string list" where
  "txmgrFlagNames =
    [NumConfirmationsFlagName, SafeAbortNonceTooLowCountFlagName, ResubmissionTimeoutFlagName,
     NetworkTimeoutFlagName, TxSendTimeoutFlagName, TxNotInMempoolTimeoutFlagName,
     ReceiptQueryIntervalFlagName, BufferSizeFlagName]"

text \<open>How many flags of a list carry a name.\<close>

definition flagCount :: "Flag list \<Rightarrow> string \<Rightarrow> nat" where
  "flagCount flags n = length (filter (\<lambda>f. Name f = n) flags)"

text \<open>Sample signer-client flags, for a concrete run.\<close>

definition sampleClientCLIFlags :: "string \<Rightarrow> Flag list" where
  "sampleClientCLIFlags envPrefix =
    [ StringFlag ''signer.endpoint'' ''Signer endpoint the client will connect to''
        (PrefixEnvVar envPrefix ''SIGNER_ENDPOINT''),
      StringFlag ''signer.address'' ''Address the signer is signing transactions for''
        (PrefixEnvVar envPrefix ''SIGNER_ADDRESS'') ]"

section \<open>Service utilities (utils/service/util.go)\<close>

subsection \<open>validateEnvVars\<close>

text \<open>
  Go's \<open>strings.IndexByte\<close>, \<open>strings.Split\<close> for a separator of one byte (the source
  splits at \<open>"="\<close>) and \<open>strings.HasPrefix\<close>. \<open>Split\<close> cuts at every occurrence of the
  separator and always returns at least one part.
\<close>

definition IndexByte :: "string \<Rightarrow> char \<Rightarrow> nat option" where
  "IndexByte s c = (if c \<in> set s then Some (length (takeWhile (\<lambda>x. x \<noteq> c) s)) else None)"

function Split :: "string \<Rightarrow> char \<Rightarrow> string list" where
  "Split s sep =
    (case IndexByte s sep of
       None \<Rightarrow> [s]
     | Some m \<Rightarrow> take m s # Split (drop (m + 1) s) sep)"
  by pat_completeness auto
termination
proof (relation "measure (\<lambda>(s, sep). length s)")
  show "wf (measure (\<lambda>(s, sep). length s))"
    by simp
next
  fix s :: string and sep :: char and m :: nat
  assume "IndexByte s sep = Some m"
  then have "s \<noteq> []"
    by (auto simp: IndexByte_def split: if_splits)
  then show "((drop (m + 1) s, sep), (s, sep)) \<in> measure (\<lambda>(s, sep). length s)"
    by simp
qed

declare Split.simps [simp del]

definition HasPrefix :: "string \<Rightarrow> string \<Rightarrow> bool" where
  "HasPrefix s pre = (length s \<ge> length pre \<and> take (length pre) s = pre)"

text \<open>
  The loop body of \<open>validateEnvVars\<close>, on the slice \<open>out\<close> built so far, and the loop
  over \<open>providedEnvVars\<close>. The Go map \<open>map[string]struct{}\<close> is a map to \<open>unit\<close>;
  \<open>_, ok := definedEnvVars[key]\<close> asks whether the key is in its domain. A nil
  slice and an empty one are both \<open>[]\<close>.
\<close>

definition validateEnvVar ::
  "string \<Rightarrow> (string \<rightharpoonup> unit) \<Rightarrow> string list \<Rightarrow> string \<Rightarrow> string list" where
  "validateEnvVar prefix' definedEnvVars out envVar =
    (let parts = Split envVar CHR ''=''
     in if length parts = 0 then out
        else let key = parts ! 0
             in if HasPrefix key prefix'
                then (case definedEnvVars key of
                        None \<Rightarrow> out @ [envVar]
                      | Some ok \<Rightarrow> out)
                else out)"

definition validateEnvVars ::
  "string \<Rightarrow> string list \<Rightarrow> (string \<rightharpoonup> unit) \<Rightarrow> string list" where
  "validateEnvVars prefix' providedEnvVars definedEnvVars =
     foldl (validateEnvVar prefix' definedEnvVars) [] providedEnvVars"

text \<open>The key of an environment entry: the text before its first \<open>=\<close>.\<close>

definition envKey :: "string \<Rightarrow> string" where
  "envKey envVar = takeWhile (\<lambda>c. c \<noteq> CHR ''='') envVar"

subsection \<open>ParseAddress\<close>

text \<open>
  \<open>common.IsHexAddress\<close> and \<open>common.HexToAddress\<close> belong to go-ethereum, a library the
  repository imports: \<open>ParseAddress\<close> takes them as the parameters \<open>isHexAddress\<close> and
  \<open>hexToAddress\<close>. It returns the Go pair \<open>(common.Address, error)\<close>;
  \<open>fmt.Errorf "invalid address: %v"\<close> formats the string itself into the message.
\<close>

definition ParseAddress ::
  "(string \<Rightarrow> bool) \<Rightarrow> (string \<Rightarrow> Address) \<Rightarrow> string \<Rightarrow> Address \<times> error option" where
  "ParseAddress isHexAddress hexToAddress address =
    (if isHexAddress address then (hexToAddress address, None)
     else (zeroAddress, Some (errors_New (''invalid address: '' @ address))))"

text \<open>
  The library's two functions as go-ethereum defines them, for concrete runs. An address
  in hex is 40 hex digits, with or without a leading \<open>0x\<close> or \<open>0X\<close>.
  \<open>HexToAddress\<close> decodes pairs of hex digits up to the first character that is not one
  (as \<open>hex.DecodeString\<close> does, its error dropped by \<open>Hex2Bytes\<close>), keeps the last 20
  bytes of a longer result and pads a shorter one with zero bytes on the left.
\<close>

definition has0xPrefix :: "string \<Rightarrow> bool" where
  "has0xPrefix str =
    (length str \<ge> 2 \<and> str ! 0 = CHR ''0'' \<and> (str ! 1 = CHR ''x'' \<or> str ! 1 = CHR ''X''))"

definition isHexCharacter :: "char \<Rightarrow> bool" where
  "isHexCharacter c =
    (let n = (of_char c :: nat)
     in (48 \<le> n \<and> n \<le> 57) \<or> (97 \<le> n \<and> n \<le> 102) \<or> (65 \<le> n \<and> n \<le> 70))"

definition isHex :: "string \<Rightarrow> bool" where
  "isHex str = (if length str mod 2 \<noteq> 0 then False else list_all isHexCharacter str)"

definition IsHexAddress :: "string \<Rightarrow> bool" where
  "IsHexAddress s0 =
    (let s = (if has0xPrefix s0 then drop 2 s0 else s0)
     in length s = 2 * AddressLength \<and> isHex s)"

definition fromHexChar :: "char \<Rightarrow> nat" where
  "fromHexChar c =
    (let n = (of_char c :: nat)
     in if 48 \<le> n \<and> n \<le> 57 then n - 48
        else if 97 \<le> n \<and> n \<le> 102 then n - 97 + 10
        else n - 65 + 10)"

fun hexDecode :: "string \<Rightarrow> 8 word list" where
  "hexDecode (p # q # rest) =
    (if isHexCharacter p \<and> isHexCharacter q
     then of_nat (fromHexChar p * 16 + fromHexChar q) # hexDecode rest
     else [])"
| "hexDecode rest = []"

definition FromHex :: "string \<Rightarrow> 8 word list" where
  "FromHex s0 =
    (let s = (if has0xPrefix s0 then drop 2 s0 else s0);
         s' = (if length s mod 2 = 1 then CHR ''0'' # s else s)
     in hexDecode s')"

definition BytesToAddress :: "8 word list \<Rightarrow> Address" where
  "BytesToAddress b0 =
    (let b = (if length b0 > AddressLength then drop (length b0 - AddressLength) b0 else b0)
     in replicate (AddressLength - length b) 0 @ b)"

definition HexToAddress :: "string \<Rightarrow> Address" where
  "HexToAddress s = BytesToAddress (FromHex s)"

section \<open>Properties of the configuration code\<close>

lemma Check_None_iff:
  "Check signerCheck m = None \<longleftrightarrow>
     L1RPCURL m \<noteq> [] \<and> NumConfirmations m \<noteq> 0 \<and> NetworkTimeout m \<noteq> 0 \<and>
     ResubmissionTimeout m \<noteq> 0 \<and> ReceiptQueryInterval m \<noteq> 0 \<and>
     TxNotInMempoolTimeout m \<noteq> 0 \<and> SafeAbortNonceTooLowCount m \<noteq> 0 \<and>
     signerCheck (SignerCLIConfig m) = None"
  by (simp add: Check_def split: option.splits)

lemma word_nonzero_ge_1: "(w :: 'a::len word) \<noteq> 0 \<longleftrightarrow> 1 \<le> w"
  by (simp add: word_le_nat_alt unat_eq_0 Suc_le_eq unat_gt_0)

lemma Check_defaultCLIConfig: "Check signerCheckAccepts defaultCLIConfig = None"
  by (simp add: Check_None_iff defaultCLIConfig_def signerCheckAccepts_def Second_def Minute_def)


lemma Check_invalid_URL:
  "Check signerCheck (cfg\<lparr>L1RPCURL := []\<rparr>) = Some (errors_New ''must provide a L1 RPC url'')"
  by (simp add: Check_def)

lemma NewConfig_sampleWorld:
  "NewConfig sampleWorld signerCheckAccepts defaultCLIConfig =
     ((\<lparr> Backend = Some ''http://127.0.0.1:8545'',
         cfgResubmissionTimeout = 48 * Second, ChainID = Some 901, cfgTxSendTimeout = 0,
         cfgTxNotInMempoolTimeout = 2 * Minute, cfgNetworkTimeout = 2 * Second,
         cfgReceiptQueryInterval = 12 * Second, cfgNumConfirmations = 10,
         cfgSafeAbortNonceTooLowCount = 3, cfgTxBufferSize = 10,
         Signer = Some 901, From = zeroAddress \<rparr>, None),
      [DialContext (2 * Second) ''http://127.0.0.1:8545'', FetchChainID (2 * Second),
       SignerFactoryFromConfig [] [] [] ()])"
  by (simp add: NewConfig_def Check_defaultCLIConfig sampleWorld_def)
     (simp add: defaultCLIConfig_def)

subsection \<open>Validation\<close>

text \<open>
  C1 (as stated, refuted): \<open>Check\<close> would return nil only if every duration field,
  \<open>TxSendTimeout\<close> included, is non-zero. The configuration made of the flags' default
  values has \<open>TxSendTimeout = 0\<close> and passes \<open>Check\<close>.
\<close>

theorem Check_nil_with_zero_TxSendTimeout:
  "Check signerCheckAccepts defaultCLIConfig = None \<and> TxSendTimeout defaultCLIConfig = 0"
  by (simp add: Check_defaultCLIConfig) (simp add: defaultCLIConfig_def)

text \<open>
  C1 (amended): for every CLIConfig, \<open>Check\<close> returns nil only if each of
  \<open>ResubmissionTimeout\<close>, \<open>NetworkTimeout\<close>, \<open>ReceiptQueryInterval\<close> and
  \<open>TxNotInMempoolTimeout\<close> is non-zero, \<open>NumConfirmations\<close> is at least 1 and
  \<open>SafeAbortNonceTooLowCount\<close> is at least 1. \<open>TxSendTimeout\<close> is not constrained.
\<close>

theorem Check_nil_only_if:
  "Check signerCheck m = None \<Longrightarrow>
     ResubmissionTimeout m \<noteq> 0 \<and> NetworkTimeout m \<noteq> 0 \<and> ReceiptQueryInterval m \<noteq> 0 \<and>
     TxNotInMempoolTimeout m \<noteq> 0 \<and> 1 \<le> NumConfirmations m \<and>
     1 \<le> SafeAbortNonceTooLowCount m"
  by (simp add: Check_None_iff word_nonzero_ge_1)

theorem Check_nil_only_if_witness:
  "Check signerCheckAccepts defaultCLIConfig = None \<and>
   ResubmissionTimeout defaultCLIConfig \<noteq> 0 \<and> NetworkTimeout defaultCLIConfig \<noteq> 0 \<and>
   ReceiptQueryInterval defaultCLIConfig \<noteq> 0 \<and> TxNotInMempoolTimeout defaultCLIConfig \<noteq> 0 \<and>
   1 \<le> NumConfirmations defaultCLIConfig \<and> 1 \<le> SafeAbortNonceTooLowCount defaultCLIConfig"
  using Check_nil_only_if [OF Check_defaultCLIConfig] Check_defaultCLIConfig by simp

text \<open>
  C2: a CLIConfig whose \<open>TxSendTimeout\<close> is 0 and whose other required fields are valid
  (non-empty \<open>L1RPCURL\<close>; non-zero \<open>NumConfirmations\<close>, \<open>NetworkTimeout\<close>,
  \<open>ResubmissionTimeout\<close>, \<open>ReceiptQueryInterval\<close>, \<open>TxNotInMempoolTimeout\<close>,
  \<open>SafeAbortNonceTooLowCount\<close>; a signer configuration that passes its own check)
  passes \<open>Check\<close> with a nil error.
\<close>

theorem Check_accepts_zero_TxSendTimeout:
  assumes "TxSendTimeout m = 0"
    and "L1RPCURL m \<noteq> []"
    and "NumConfirmations m \<noteq> 0"
    and "NetworkTimeout m \<noteq> 0"
    and "ResubmissionTimeout m \<noteq> 0"
    and "ReceiptQueryInterval m \<noteq> 0"
    and "TxNotInMempoolTimeout m \<noteq> 0"
    and "SafeAbortNonceTooLowCount m \<noteq> 0"
    and "signerCheck (SignerCLIConfig m) = None"
  shows "Check signerCheck m = None"
  using assms by (simp add: Check_None_iff)

theorem Check_accepts_zero_TxSendTimeout_witness:
  "TxSendTimeout (defaultCLIConfig\<lparr>NumConfirmations := 1\<rparr>) = 0 \<and>
   L1RPCURL (defaultCLIConfig\<lparr>NumConfirmations := 1\<rparr>) \<noteq> [] \<and>
   NumConfirmations (defaultCLIConfig\<lparr>NumConfirmations := 1\<rparr>) \<noteq> 0 \<and>
   NetworkTimeout (defaultCLIConfig\<lparr>NumConfirmations := 1\<rparr>) \<noteq> 0 \<and>
   ResubmissionTimeout (defaultCLIConfig\<lparr>NumConfirmations := 1\<rparr>) \<noteq> 0 \<and>
   ReceiptQueryInterval (defaultCLIConfig\<lparr>NumConfirmations := 1\<rparr>) \<noteq> 0 \<and>
   TxNotInMempoolTimeout (defaultCLIConfig\<lparr>NumConfirmations := 1\<rparr>) \<noteq> 0 \<and>
   SafeAbortNonceTooLowCount (defaultCLIConfig\<lparr>NumConfirmations := 1\<rparr>) \<noteq> 0 \<and>
   signerCheckAccepts (SignerCLIConfig (defaultCLIConfig\<lparr>NumConfirmations := 1\<rparr>)) = None \<and>
   Check signerCheckAccepts (defaultCLIConfig\<lparr>NumConfirmations := 1\<rparr>) = None"
  using Check_accepts_zero_TxSendTimeout
          [of "defaultCLIConfig\<lparr>NumConfirmations := 1\<rparr>" signerCheckAccepts]
  by (simp add: defaultCLIConfig_def signerCheckAccepts_def Second_def Minute_def)

text \<open>
  C10: the result of \<open>Check\<close> does not depend on \<open>Mnemonic\<close>, \<open>HDPath\<close>,
  \<open>PrivateKey\<close> or \<open>TxBufferSize\<close>: changing those four fields of any CLIConfig to any
  values leaves the outcome the same; and the default configuration with
  \<open>TxBufferSize\<close> set to 0 passes.
\<close>

theorem Check_ignores_keys_and_buffer:
  "Check signerCheck
     (m\<lparr>Mnemonic := mn, HDPath := hp, PrivateKey := pk, TxBufferSize := bs\<rparr>)
     = Check signerCheck m \<and>
   Check signerCheckAccepts (defaultCLIConfig\<lparr>TxBufferSize := 0\<rparr>) = None"
proof
  show "Check signerCheck
          (m\<lparr>Mnemonic := mn, HDPath := hp, PrivateKey := pk, TxBufferSize := bs\<rparr>)
        = Check signerCheck m"
    by (simp add: Check_def)
  have "Check signerCheckAccepts (defaultCLIConfig\<lparr>TxBufferSize := 0\<rparr>)
        = Check signerCheckAccepts defaultCLIConfig"
    by (simp add: Check_def)
  then show "Check signerCheckAccepts (defaultCLIConfig\<lparr>TxBufferSize := 0\<rparr>) = None"
    by (simp add: Check_defaultCLIConfig)
qed

subsection \<open>Construction\<close>

text \<open>
  C3: \<open>NewConfig\<close> fails fast. For every CLIConfig for which \<open>Check\<close> returns an error,
  \<open>NewConfig\<close> returns the zero Config together with the error
  \<open>"invalid config: "\<close> wrapping the validation error, and the trace of interactions
  with the outside (dial, chain-ID fetch, signer construction) is empty.
\<close>

theorem NewConfig_fails_fast:
  "Check signerCheck cfg = Some err \<Longrightarrow>
     NewConfig world signerCheck cfg
       = ((zeroConfig, Some (Errorf_w ''invalid config: '' err)), []) \<and>
     Unwrap (Errorf_w ''invalid config: '' err) = Some err"
  by (simp add: NewConfig_def)

theorem NewConfig_fails_fast_witness:
  "Check signerCheckAccepts (defaultCLIConfig\<lparr>L1RPCURL := []\<rparr>)
     = Some (errors_New ''must provide a L1 RPC url'') \<and>
   NewConfig sampleWorld signerCheckAccepts (defaultCLIConfig\<lparr>L1RPCURL := []\<rparr>)
     = ((zeroConfig,
         Some (Errorf_w ''invalid config: '' (errors_New ''must provide a L1 RPC url''))), [])"
  using NewConfig_fails_fast
          [where signerCheck = signerCheckAccepts and world = sampleWorld,
           OF Check_invalid_URL [of signerCheckAccepts defaultCLIConfig]]
        Check_invalid_URL [of signerCheckAccepts defaultCLIConfig]
  by simp

text \<open>
  C4: when \<open>NewConfig\<close> succeeds (its error is nil), the returned Config holds the
  CLIConfig's \<open>ResubmissionTimeout\<close>, \<open>TxSendTimeout\<close>, \<open>TxNotInMempoolTimeout\<close>,
  \<open>NetworkTimeout\<close>, \<open>ReceiptQueryInterval\<close>, \<open>NumConfirmations\<close>,
  \<open>SafeAbortNonceTooLowCount\<close> and \<open>TxBufferSize\<close> unchanged, its backend is the
  client that the dial returned, and its \<open>ChainID\<close> is the chain ID that this client
  reported.
\<close>

theorem NewConfig_snapshot:
  assumes "NewConfig world signerCheck cfg = ((c, None), tr)"
  shows "cfgResubmissionTimeout c = ResubmissionTimeout cfg \<and>
         cfgTxSendTimeout c = TxSendTimeout cfg \<and>
         cfgTxNotInMempoolTimeout c = TxNotInMempoolTimeout cfg \<and>
         cfgNetworkTimeout c = NetworkTimeout cfg \<and>
         cfgReceiptQueryInterval c = ReceiptQueryInterval cfg \<and>
         cfgNumConfirmations c = NumConfirmations cfg \<and>
         cfgSafeAbortNonceTooLowCount c = SafeAbortNonceTooLowCount cfg \<and>
         cfgTxBufferSize c = TxBufferSize cfg \<and>
         (\<exists>l1 chainID.
            envDialContext world (NetworkTimeout cfg) (L1RPCURL cfg) = Inr l1 \<and>
            envChainID world l1 (NetworkTimeout cfg) = Inr chainID \<and>
            Backend c = Some l1 \<and> ChainID c = Some chainID)"
  using assms
  by (auto simp: NewConfig_def Let_def split: option.splits sum.splits prod.splits)

theorem NewConfig_snapshot_witness:
  "snd (fst (NewConfig sampleWorld signerCheckAccepts defaultCLIConfig)) = None \<and>
   cfgNumConfirmations (fst (fst (NewConfig sampleWorld signerCheckAccepts defaultCLIConfig)))
     = NumConfirmations defaultCLIConfig \<and>
   cfgTxBufferSize (fst (fst (NewConfig sampleWorld signerCheckAccepts defaultCLIConfig)))
     = TxBufferSize defaultCLIConfig \<and>
   ChainID (fst (fst (NewConfig sampleWorld signerCheckAccepts defaultCLIConfig))) = Some 901"
  using NewConfig_snapshot [OF NewConfig_sampleWorld] NewConfig_sampleWorld
  by simp

section \<open>Properties of the flags\<close>

lemmas flagNames_defs =
  keyFlagNames_def txmgrFlagNames_def L1RPCFlagName_def MnemonicFlagName_def
  HDPathFlagName_def PrivateKeyFlagName_def NumConfirmationsFlagName_def
  SafeAbortNonceTooLowCountFlagName_def ResubmissionTimeoutFlagName_def
  NetworkTimeoutFlagName_def TxSendTimeoutFlagName_def TxNotInMempoolTimeoutFlagName_def
  ReceiptQueryIntervalFlagName_def BufferSizeFlagName_def

lemma distinct_own_names: "distinct (L1RPCFlagName # keyFlagNames @ txmgrFlagNames)"
  by (simp add: flagNames_defs)

lemma count_distinct:
  "distinct xs \<Longrightarrow> n \<in> set xs \<Longrightarrow> length (filter (\<lambda>x. x = n) xs) = 1"
  by (induction xs) (auto simp: filter_empty_conv)

lemma count_absent: "n \<notin> set xs \<Longrightarrow> filter (\<lambda>x. x = n) xs = []"
  by (auto simp: filter_empty_conv)

lemma count_own_names:
  "n \<in> set (keyFlagNames @ txmgrFlagNames) \<Longrightarrow>
     length (filter (\<lambda>x. x = n) (keyFlagNames @ txmgrFlagNames)) = 1"
  using distinct_own_names by (intro count_distinct) simp_all

lemma count_L1RPC_own:
  "filter (\<lambda>x. x = L1RPCFlagName) (keyFlagNames @ txmgrFlagNames) = []"
  using distinct_own_names by (intro count_absent) simp

lemma filter_client_names:
  assumes "\<forall>f \<in> set flags. Name f \<notin> set names" and "n \<in> set names"
  shows "filter (\<lambda>x. x = n) (map Name flags) = []"
  using assms by (intro count_absent) auto

lemma CLIFlags_own_names:
  "map Name (CLIFlags clientCLIFlags envPrefix)
     = keyFlagNames @ txmgrFlagNames @ map Name (clientCLIFlags envPrefix)"
  by (simp add: CLIFlags_def keyFlagNames_def txmgrFlagNames_def PrivateKeyFlagName_def)

lemma flagCount_map: "flagCount flags n = length (filter (\<lambda>x. x = n) (map Name flags))"
  by (simp add: flagCount_def filter_map comp_def)

lemma sampleClient_ok:
  "\<forall>f \<in> set (sampleClientCLIFlags ''KROMA_BATCHER'').
       Name f \<notin> set (L1RPCFlagName # keyFlagNames @ txmgrFlagNames)"
  by (simp add: sampleClientCLIFlags_def flagNames_defs)

text \<open>
  C7: \<open>CLIFlags envPrefix\<close> defines exactly one flag for each of the eight
  transaction-manager parameters and each of the three key-management options, each
  with the environment variable \<open>envPrefix + "_" + suffix\<close>, followed by the
  signer-client flags; it defines no flag named \<open>L1RPCFlagName\<close>, the name under which
  \<open>ReadCLIConfig\<close> reads the L1 endpoint URL. The signer-client flags are those of
  \<open>client.CLIFlags\<close>, assumed not to reuse the eleven names nor \<open>L1RPCFlagName\<close>.
\<close>

theorem CLIFlags_surface:
  assumes client:
    "\<forall>f \<in> set (clientCLIFlags envPrefix).
       Name f \<notin> set (L1RPCFlagName # keyFlagNames @ txmgrFlagNames)"
  shows "(\<forall>n \<in> set (keyFlagNames @ txmgrFlagNames).
            flagCount (CLIFlags clientCLIFlags envPrefix) n = 1) \<and>
         flagCount (CLIFlags clientCLIFlags envPrefix) L1RPCFlagName = 0 \<and>
         map (\<lambda>f. (Name f, EnvVar f)) (take 11 (CLIFlags clientCLIFlags envPrefix)) =
           [(MnemonicFlagName, envPrefix @ ''_MNEMONIC''),
            (HDPathFlagName, envPrefix @ ''_HD_PATH''),
            (PrivateKeyFlagName, envPrefix @ ''_PRIVATE_KEY''),
            (NumConfirmationsFlagName, envPrefix @ ''_NUM_CONFIRMATIONS''),
            (SafeAbortNonceTooLowCountFlagName, envPrefix @ ''_SAFE_ABORT_NONCE_TOO_LOW_COUNT''),
            (ResubmissionTimeoutFlagName, envPrefix @ ''_RESUBMISSION_TIMEOUT''),
            (NetworkTimeoutFlagName, envPrefix @ ''_NETWORK_TIMEOUT''),
            (TxSendTimeoutFlagName, envPrefix @ ''_TXMGR_TX_SEND_TIMEOUT''),
            (TxNotInMempoolTimeoutFlagName, envPrefix @ ''_TXMGR_TX_NOT_IN_MEMPOOL_TIMEOUT''),
            (ReceiptQueryIntervalFlagName, envPrefix @ ''_TXMGR_RECEIPT_QUERY_INTERVAL''),
            (BufferSizeFlagName, envPrefix @ ''_TXMGR_BUFFER_SIZE'')] \<and>
         drop 11 (CLIFlags clientCLIFlags envPrefix) = clientCLIFlags envPrefix \<and>
         L1RPCURL (ReadCLIConfig clientReadCLIConfig ctx) = GlobalString ctx L1RPCFlagName"
proof (intro conjI ballI)
  fix n
  assume n: "n \<in> set (keyFlagNames @ txmgrFlagNames)"
  then have "n \<in> set (L1RPCFlagName # keyFlagNames @ txmgrFlagNames)"
    by simp
  with client have "filter (\<lambda>x. x = n) (map Name (clientCLIFlags envPrefix)) = []"
    by (rule filter_client_names)
  with count_own_names [OF n]
  show "flagCount (CLIFlags clientCLIFlags envPrefix) n = 1"
    by (simp add: flagCount_map CLIFlags_own_names)
next
  have "L1RPCFlagName \<in> set (L1RPCFlagName # keyFlagNames @ txmgrFlagNames)"
    by simp
  with client have "filter (\<lambda>x. x = L1RPCFlagName) (map Name (clientCLIFlags envPrefix)) = []"
    by (rule filter_client_names)
  with count_L1RPC_own
  show "flagCount (CLIFlags clientCLIFlags envPrefix) L1RPCFlagName = 0"
    by (simp add: flagCount_map CLIFlags_own_names)
next
  show "map (\<lambda>f. (Name f, EnvVar f)) (take 11 (CLIFlags clientCLIFlags envPrefix)) =
           [(MnemonicFlagName, envPrefix @ ''_MNEMONIC''),
            (HDPathFlagName, envPrefix @ ''_HD_PATH''),
            (PrivateKeyFlagName, envPrefix @ ''_PRIVATE_KEY''),
            (NumConfirmationsFlagName, envPrefix @ ''_NUM_CONFIRMATIONS''),
            (SafeAbortNonceTooLowCountFlagName, envPrefix @ ''_SAFE_ABORT_NONCE_TOO_LOW_COUNT''),
            (ResubmissionTimeoutFlagName, envPrefix @ ''_RESUBMISSION_TIMEOUT''),
            (NetworkTimeoutFlagName, envPrefix @ ''_NETWORK_TIMEOUT''),
            (TxSendTimeoutFlagName, envPrefix @ ''_TXMGR_TX_SEND_TIMEOUT''),
            (TxNotInMempoolTimeoutFlagName, envPrefix @ ''_TXMGR_TX_NOT_IN_MEMPOOL_TIMEOUT''),
            (ReceiptQueryIntervalFlagName, envPrefix @ ''_TXMGR_RECEIPT_QUERY_INTERVAL''),
            (BufferSizeFlagName, envPrefix @ ''_TXMGR_BUFFER_SIZE'')]"
    by (simp add: CLIFlags_def PrefixEnvVar_def PrivateKeyFlagName_def)
next
  show "drop 11 (CLIFlags clientCLIFlags envPrefix) = clientCLIFlags envPrefix"
    by (simp add: CLIFlags_def)
next
  show "L1RPCURL (ReadCLIConfig clientReadCLIConfig ctx) = GlobalString ctx L1RPCFlagName"
    by (simp add: ReadCLIConfig_def)
qed

theorem CLIFlags_surface_witness:
  "Name (sampleClientCLIFlags ''KROMA_BATCHER'' ! 0) \<notin> set (L1RPCFlagName # keyFlagNames @ txmgrFlagNames) \<and>
   Name (sampleClientCLIFlags ''KROMA_BATCHER'' ! 1) \<notin> set (L1RPCFlagName # keyFlagNames @ txmgrFlagNames) \<and>
   length (sampleClientCLIFlags ''KROMA_BATCHER'') = 2 \<and>
   flagCount (CLIFlags sampleClientCLIFlags ''KROMA_BATCHER'') NumConfirmationsFlagName = 1 \<and>
   flagCount (CLIFlags sampleClientCLIFlags ''KROMA_BATCHER'') L1RPCFlagName = 0 \<and>
   EnvVar (CLIFlags sampleClientCLIFlags ''KROMA_BATCHER'' ! 3) = ''KROMA_BATCHER_NUM_CONFIRMATIONS'' \<and>
   length (CLIFlags sampleClientCLIFlags ''KROMA_BATCHER'') = 13"
proof -
  note s = CLIFlags_surface [where clientCLIFlags = sampleClientCLIFlags and envPrefix = "''KROMA_BATCHER''", OF sampleClient_ok]
  have a: "NumConfirmationsFlagName \<in> set (keyFlagNames @ txmgrFlagNames)"
    by (simp add: txmgrFlagNames_def)
  from s a have c1: "flagCount (CLIFlags sampleClientCLIFlags ''KROMA_BATCHER'') NumConfirmationsFlagName = 1"
    by blast
  from s have c0: "flagCount (CLIFlags sampleClientCLIFlags ''KROMA_BATCHER'') L1RPCFlagName = 0"
    by blast
  have rest: "EnvVar (CLIFlags sampleClientCLIFlags ''KROMA_BATCHER'' ! 3) = ''KROMA_BATCHER_NUM_CONFIRMATIONS''"
     "length (CLIFlags sampleClientCLIFlags ''KROMA_BATCHER'') = 13"
    by (simp_all add: CLIFlags_def sampleClientCLIFlags_def PrefixEnvVar_def)
  have cl: "Name (sampleClientCLIFlags ''KROMA_BATCHER'' ! 0) \<notin> set (L1RPCFlagName # keyFlagNames @ txmgrFlagNames)"
    "Name (sampleClientCLIFlags ''KROMA_BATCHER'' ! 1) \<notin> set (L1RPCFlagName # keyFlagNames @ txmgrFlagNames)"
    "length (sampleClientCLIFlags ''KROMA_BATCHER'') = 2"
    by (simp_all add: sampleClientCLIFlags_def flagNames_defs)
  from c1 c0 rest cl show ?thesis by simp
qed

section \<open>Properties of the service utilities\<close>

lemma Split_nonempty: "Split s sep \<noteq> []"
  by (subst Split.simps) (simp split: option.splits)

lemma Split_first: "Split s sep ! 0 = takeWhile (\<lambda>x. x \<noteq> sep) s"
proof (cases "IndexByte s sep")
  case None
  then have "sep \<notin> set s"
    by (simp add: IndexByte_def split: if_splits)
  then have tw: "takeWhile (\<lambda>x. x \<noteq> sep) s = s"
    by (auto simp: takeWhile_eq_all_conv)
  from None have "Split s sep = [s]"
    by (subst Split.simps) simp
  then show ?thesis
    by (simp add: tw)
next
  case (Some m)
  then have "m = length (takeWhile (\<lambda>x. x \<noteq> sep) s)"
    by (simp add: IndexByte_def split: if_splits)
  then have tk: "take m s = takeWhile (\<lambda>x. x \<noteq> sep) s"
    by (simp add: takeWhile_eq_take [symmetric])
  from Some have "Split s sep = take m s # Split (drop (m + 1) s) sep"
    by (subst Split.simps) simp
  then show ?thesis
    by (simp add: tk)
qed

lemma HasPrefix_iff: "HasPrefix s pre \<longleftrightarrow> prefix pre s"
proof
  assume "HasPrefix s pre"
  then have "s = pre @ drop (length pre) s"
    by (metis HasPrefix_def append_take_drop_id)
  then show "prefix pre s"
    by (metis prefixI)
next
  assume "prefix pre s"
  then show "HasPrefix s pre"
    by (auto simp: HasPrefix_def prefix_def)
qed

lemma validateEnvVar_eq:
  "validateEnvVar p defined out e =
     out @ (if prefix p (envKey e) \<and> envKey e \<notin> dom defined then [e] else [])"
  by (auto simp: validateEnvVar_def Let_def Split_nonempty Split_first HasPrefix_iff envKey_def
           split: option.splits)

lemma foldl_validateEnvVar:
  "foldl (validateEnvVar p defined) out es =
     out @ filter (\<lambda>e. prefix p (envKey e) \<and> envKey e \<notin> dom defined) es"
  by (induction es arbitrary: out) (simp_all add: validateEnvVar_eq)

text \<open>A run of the loop itself, entry by entry.\<close>

lemma validateEnvVars_sample:
  "validateEnvVars ''KROMA''
     [''KROMA_A=1'', ''PATH=/bin'', ''KROMA_B=2=3'', ''KROMA_C'', ''XKROMA_A=1'', ''=KROMA'']
     [''KROMA_A'' \<mapsto> ()]
   = [''KROMA_B=2=3'', ''KROMA_C'']"
  by code_simp

text \<open>
  C8: for every prefix, every list of provided environment entries and every set of
  defined names, \<open>validateEnvVars\<close> returns exactly the provided entries whose key (the
  text before the first \<open>=\<close>) starts with the prefix and is not defined, in their
  input order.
\<close>

theorem validateEnvVars_filter:
  "validateEnvVars p provided defined =
     filter (\<lambda>e. prefix p (envKey e) \<and> envKey e \<notin> dom defined) provided"
  by (simp add: validateEnvVars_def foldl_validateEnvVar)

lemma IsHexAddress_sample: "IsHexAddress ''0x00000000000000000000000000000000000000aB''"
  by (simp add: IsHexAddress_def has0xPrefix_def isHex_def isHexCharacter_def AddressLength_def)

lemma HexToAddress_sample:
  "HexToAddress ''0x00000000000000000000000000000000000000aB''
     = [0, 0, 0, 0, 0, 0, 0, 0, 0, 0, 0, 0, 0, 0, 0, 0, 0, 0, 0, 171]"
  by (simp add: HexToAddress_def FromHex_def has0xPrefix_def isHexCharacter_def
        fromHexChar_def BytesToAddress_def AddressLength_def)

lemma not_IsHexAddress_sample: "\<not> IsHexAddress ''0xabc''"
  by (simp add: IsHexAddress_def has0xPrefix_def isHex_def AddressLength_def)

text \<open>
  C9: for every input string, \<open>ParseAddress\<close> returns a nil error exactly when the
  string is a valid hex address, then with the parsed address; otherwise it returns the
  zero address with the error \<open>"invalid address: "\<close> followed by the string; whenever
  the error is non-nil the address is the zero address.
\<close>

theorem ParseAddress_result:
  "(snd (ParseAddress isHexAddress hexToAddress address) = None \<longleftrightarrow> isHexAddress address) \<and>
   (isHexAddress address \<longrightarrow>
      ParseAddress isHexAddress hexToAddress address = (hexToAddress address, None)) \<and>
   (\<not> isHexAddress address \<longrightarrow>
      ParseAddress isHexAddress hexToAddress address
        = (zeroAddress, Some (errors_New (''invalid address: '' @ address)))) \<and>
   (snd (ParseAddress isHexAddress hexToAddress address) \<noteq> None \<longrightarrow>
      fst (ParseAddress isHexAddress hexToAddress address) = zeroAddress)"
  by (simp add: ParseAddress_def)

theorem ParseAddress_result_witness:
  "IsHexAddress ''0x00000000000000000000000000000000000000aB'' \<and>
   ParseAddress IsHexAddress HexToAddress ''0x00000000000000000000000000000000000000aB''
     = ([0, 0, 0, 0, 0, 0, 0, 0, 0, 0, 0, 0, 0, 0, 0, 0, 0, 0, 0, 171], None) \<and>
   \<not> IsHexAddress ''0xabc'' \<and>
   ParseAddress IsHexAddress HexToAddress ''0xabc''
     = (zeroAddress, Some (errors_New ''invalid address: 0xabc''))"
  using ParseAddress_result [of IsHexAddress HexToAddress "''0x00000000000000000000000000000000000000aB''"]
        ParseAddress_result [of IsHexAddress HexToAddress "''0xabc''"]
        IsHexAddress_sample HexToAddress_sample not_IsHexAddress_sample
  by simp

end
